theory Spec2Isabelle
  imports Complex_Main
begin

section \<open>Errors\<close>

text \<open>
  The Go code reports every failure as a value built by \<open>fmt.Errorf\<close>. Each constructor
  below stands for one such call site; a constructor with an \<open>error\<close> argument is a
  message that wraps its cause with \<open>%w\<close>.
\<close>

datatype error =
    ParseTokenFailed            \<comment> \<open>failed to parse token: ...\<close>
  | InvalidTokenClaims          \<comment> \<open>invalid token claims\<close>
  | NoExpirationClaim           \<comment> \<open>token does not contain expiration claim\<close>
  | InvalidExpirationType       \<comment> \<open>invalid expiration claim type\<close>
  | RefreshTokenRequired        \<comment> \<open>refresh token is required\<close>
  | CreateRequestFailed         \<comment> \<open>failed to create request: ...\<close>
  | ExecuteRequestFailed        \<comment> \<open>failed to execute request: ...\<close>
  | ReadBodyFailed              \<comment> \<open>failed to read response body: ...\<close>
  | TokenRefreshStatus int string      \<comment> \<open>token refresh failed (status d): body\<close>
  | TokenRefreshApi string string      \<comment> \<open>token refresh failed: code - message\<close>
  | ParseTokenResponseFailed    \<comment> \<open>failed to parse token response: ...\<close>
  | NoAccessTokenInResponse     \<comment> \<open>token response does not contain access_token\<close>
  | ParseFailedNoRefresh error  \<comment> \<open>failed to parse token and no refresh token available: ...\<close>
  | ExpiredNoRefresh            \<comment> \<open>token is expired and no refresh token available ...\<close>
  | RefreshFailed error         \<comment> \<open>failed to refresh token: ...\<close>
  | Got401NoRefresh             \<comment> \<open>received 401 error and no refresh token available ...\<close>
  | Got401RefreshFailed error   \<comment> \<open>received 401 error and failed to refresh token: ...\<close>
  | CreateRetryFailed           \<comment> \<open>failed to create retry request: ...\<close>
  | ExecuteRetryFailed          \<comment> \<open>failed to execute retry request: ...\<close>
  | ReadRetryBodyFailed         \<comment> \<open>failed to read retry response body: ...\<close>
  | ApiErrorAfterRefreshStatus int string  \<comment> \<open>API error after refresh (status d): body\<close>
  | ApiErrorAfterRefresh string string     \<comment> \<open>API error after refresh: code - message\<close>
  | UnmarshalRetryFailed        \<comment> \<open>failed to unmarshal retry response: ...\<close>
  | ApiErrorStatus int string   \<comment> \<open>API error (status d): body\<close>
  | ApiError string string      \<comment> \<open>API error: code - message\<close>
  | UnmarshalFailed             \<comment> \<open>failed to unmarshal response: ...\<close>
  | EncodePayloadFailed         \<comment> \<open>failed to encode payload: ...\<close>
  | TokenCheckFailed error      \<comment> \<open>token check failed: ...\<close>

section \<open>Token inspection (package token)\<close>

text \<open>
  A claim value as the type switch of \<open>ParseToken\<close> sees it: a \<open>float64\<close>, an \<open>int64\<close>,
  or a value of any other dynamic type. A finite \<open>float64\<close> is a real number and is
  carried as such.
\<close>

datatype claim_value = Float64 real | Int64 int | NonNumeric

text \<open>
  What \<open>parser.ParseUnverified(tokenString, jwt.MapClaims{})\<close> hands back on success: the
  claims of the token, which the code then asserts to be a \<open>jwt.MapClaims\<close>. The parser
  itself belongs to the JWT library and is a parameter of the model: \<open>None\<close> is its
  error return.
\<close>

datatype jwt_claims = MapClaims "string \<rightharpoonup> claim_value" | OtherClaims

type_synonym jwt_parser = "string \<Rightarrow> jwt_claims option"

text \<open>
  Instants (\<open>time.Time\<close>) are counted in nanoseconds since the Unix epoch, durations
  (\<open>time.Duration\<close>, an \<open>int64\<close>) in nanoseconds. \<open>Time.Sub\<close> saturates at the largest and
  smallest duration.
\<close>

definition Second :: int where
  "Second = 1000000000"

definition Minute :: int where
  "Minute = 60 * Second"

definition maxDuration :: int where
  "maxDuration = 2 ^ 63 - 1"

definition minDuration :: int where
  "minDuration = - (2 ^ 63)"

definition time_Unix :: "int \<Rightarrow> int" where
  "time_Unix sec = sec * Second"

definition time_Sub :: "int \<Rightarrow> int \<Rightarrow> int" where
  "time_Sub t u =
     (let d = t - u
      in if maxDuration < d then maxDuration
         else if d < minDuration then minDuration
         else d)"

definition time_After :: "int \<Rightarrow> int \<Rightarrow> bool" where
  "time_After t u = (u < t)"

text \<open>
  The conversion \<open>int64(v)\<close> of a \<open>float64\<close> drops the fraction (rounds toward zero). Go
  defines its result only when the truncated value fits an \<open>int64\<close>, and \<open>time.Unix\<close>
  keeps an instant as \<open>int64\<close> seconds counted from year 1. Both are exact for a count
  of seconds of magnitude at most \<open>2 ^ 62\<close>; \<open>seconds_in_range\<close> is that condition.
  Outside it the model and the code may read a token differently, so the properties that
  rest on a token being read as fresh are stated under it.
\<close>

definition int64_of_float64 :: "real \<Rightarrow> int" where
  "int64_of_float64 v = (if 0 \<le> v then \<lfloor>v\<rfloor> else \<lceil>v\<rceil>)"

definition seconds_in_range :: "int \<Rightarrow> bool" where
  "seconds_in_range sec = (- (2 ^ 62) \<le> sec \<and> sec \<le> 2 ^ 62)"

record TokenInfo =
  ExpiresAt :: int
  IsExpired :: bool
  TimeUntilExp :: int
  ExpiresSoon :: bool

definition ParseToken :: "jwt_parser \<Rightarrow> int \<Rightarrow> string \<Rightarrow> error + TokenInfo" where
  "ParseToken ParseUnverified now tokenString =
     (case ParseUnverified tokenString of
        None \<Rightarrow> Inl ParseTokenFailed
      | Some tokenClaims \<Rightarrow>
          (case tokenClaims of
             OtherClaims \<Rightarrow> Inl InvalidTokenClaims
           | MapClaims claims \<Rightarrow>
               (case claims ''exp'' of
                  None \<Rightarrow> Inl NoExpirationClaim
                | Some expv \<Rightarrow>
                    (case (case expv of
                             Float64 v \<Rightarrow> Some (time_Unix (int64_of_float64 v))
                           | Int64 v \<Rightarrow> Some (time_Unix v)
                           | NonNumeric \<Rightarrow> None) of
                       None \<Rightarrow> Inl InvalidExpirationType
                     | Some expTime \<Rightarrow>
                         (let timeUntilExp = time_Sub expTime now;
                              isExpired = time_After now expTime;
                              expiresSoon = (\<not> isExpired \<and> timeUntilExp < 10 * Minute)
                          in Inr \<lparr>ExpiresAt = expTime, IsExpired = isExpired,
                                  TimeUntilExp = timeUntilExp, ExpiresSoon = expiresSoon\<rparr>)))))"

text \<open>Vocabulary of the claims about token inspection.\<close>

definition claims_of :: "jwt_parser \<Rightarrow> string \<Rightarrow> (string \<rightharpoonup> claim_value) option" where
  \<comment> \<open>the claims of a well-formed token; \<open>None\<close> when the string is not a well-formed JWT\<close>
  "claims_of ParseUnverified tokenString =
     (case ParseUnverified tokenString of
        Some (MapClaims claims) \<Rightarrow> Some claims
      | _ \<Rightarrow> None)"

definition exp_claim :: "jwt_parser \<Rightarrow> string \<Rightarrow> claim_value option" where
  \<comment> \<open>the \<open>exp\<close> claim of a well-formed token, when it has one\<close>
  "exp_claim ParseUnverified tokenString =
     (case claims_of ParseUnverified tokenString of
        None \<Rightarrow> None
      | Some claims \<Rightarrow> claims ''exp'')"

definition numeric :: "claim_value \<Rightarrow> bool" where
  "numeric v = (case v of NonNumeric \<Rightarrow> False | _ \<Rightarrow> True)"

definition exp_seconds :: "claim_value \<Rightarrow> int" where
  \<comment> \<open>the whole number of seconds the code reads from a numeric claim\<close>
  "exp_seconds v = (case v of Float64 f \<Rightarrow> int64_of_float64 f | Int64 i \<Rightarrow> i | NonNumeric \<Rightarrow> 0)"

definition exp_value :: "claim_value \<Rightarrow> real" where
  \<comment> \<open>the number a numeric claim denotes, fraction included\<close>
  "exp_value v = (case v of Float64 f \<Rightarrow> f | Int64 i \<Rightarrow> of_int i | NonNumeric \<Rightarrow> 0)"

definition decode_error :: "error \<Rightarrow> bool" where
  "decode_error e = (e = ParseTokenFailed \<or> e = InvalidTokenClaims)"

definition exp_in_range :: "jwt_parser \<Rightarrow> string \<Rightarrow> bool" where
  \<comment> \<open>the token has no \<open>exp\<close> claim to read, or one inside the range where reading it is exact\<close>
  "exp_in_range ParseUnverified tokenString =
     (case exp_claim ParseUnverified tokenString of
        None \<Rightarrow> True
      | Some v \<Rightarrow> seconds_in_range (exp_seconds v))"

section \<open>Wire types (package graph)\<close>

record Error =
  Code :: string
  Message :: string

record ErrorResponse =
  Error :: Error

record TokenResponse =
  AccessToken :: string
  TokenType :: string
  ExpiresIn :: int
  RefreshToken :: string
  Scope :: string

text \<open>
  An HTTP request as the code builds it: method, URL, the two headers it sets, and the
  body (none, raw bytes, or the \<open>url.Values\<close> of a form before encoding).
\<close>

datatype body = NoBody | Bytes string | Form "(string \<times> string) list"

record request =
  Method :: string
  URL :: string
  Authorization :: "string option"
  ContentType :: string
  Body :: body

text \<open>
  What \<open>httpClient.Do\<close> followed by \<open>io.ReadAll(resp.Body)\<close> can give: no response at
  all, or a status code with the bytes read and whether reading them succeeded.
\<close>

datatype response = DoFailed | Response int string bool

text \<open>
  The libraries and the network are parameters: the JWT parser, whether
  \<open>http.NewRequest\<close> accepts a method and URL, the transport (a step on a world of
  type \<open>'w\<close>), the JSON decoders for the three target types, and the JSON encoder for
  payloads. A decoder or encoder returns \<open>None\<close> where the library returns an error.
\<close>

record ('w, 'p, 'r) env =
  ParseUnverified :: jwt_parser
  NewRequest_ok :: "string \<Rightarrow> string \<Rightarrow> bool"
  transport :: "'w \<Rightarrow> request \<Rightarrow> response \<times> 'w"
  unmarshal_error :: "string \<Rightarrow> ErrorResponse option"
  unmarshal_token :: "string \<Rightarrow> TokenResponse option"
  unmarshal_result :: "string \<Rightarrow> 'r option"
  encode_payload :: "'p \<Rightarrow> string option"

text \<open>The network: the world behind the transport and the requests handed to it so far.\<close>

record 'w net =
  world :: 'w
  sent :: "request list"

definition Do :: "('w, 'p, 'r) env \<Rightarrow> request \<Rightarrow> 'w net \<Rightarrow> response \<times> 'w net" where
  "Do env req n =
     (case transport env (world n) req of
        (resp, w') \<Rightarrow> (resp, \<lparr>world = w', sent = sent n @ [req]\<rparr>))"

text \<open>
  \<open>json.Unmarshal\<close> rejects empty input whatever the target, and rejects a nil target.
\<close>

definition json_Unmarshal :: "(string \<Rightarrow> 'a option) \<Rightarrow> string \<Rightarrow> 'a option" where
  "json_Unmarshal dec data = (if data = [] then None else dec data)"

definition Unmarshal_result :: "('w, 'p, 'r) env \<Rightarrow> bool \<Rightarrow> string \<Rightarrow> 'r option" where
  \<comment> \<open>\<open>json.Unmarshal(data, result)\<close>; the flag says that \<open>result\<close> is not nil\<close>
  "Unmarshal_result env target data =
     (if target then json_Unmarshal (unmarshal_result env) data else None)"

definition Encode :: "('w, 'p, 'r) env \<Rightarrow> 'p option \<Rightarrow> string option" where
  \<comment> \<open>the buffer after \<open>if payload != nil { json.NewEncoder(&body).Encode(payload) }\<close>\<close>
  "Encode env payload = (case payload of None \<Rightarrow> Some [] | Some p \<Rightarrow> encode_payload env p)"

definition api_error :: "('w, 'p, 'r) env \<Rightarrow> int \<Rightarrow> string \<Rightarrow> error" where
  "api_error env status respBody =
     (case json_Unmarshal (unmarshal_error env) respBody of
        None \<Rightarrow> ApiErrorStatus status respBody
      | Some errorResp \<Rightarrow> ApiError (Code (Error errorResp)) (Message (Error errorResp)))"

definition api_error_after_refresh :: "('w, 'p, 'r) env \<Rightarrow> int \<Rightarrow> string \<Rightarrow> error" where
  "api_error_after_refresh env status respBody =
     (case json_Unmarshal (unmarshal_error env) respBody of
        None \<Rightarrow> ApiErrorAfterRefreshStatus status respBody
      | Some errorResp \<Rightarrow>
          ApiErrorAfterRefresh (Code (Error errorResp)) (Message (Error errorResp)))"

definition bearer_request :: "string \<Rightarrow> string \<Rightarrow> body \<Rightarrow> string \<Rightarrow> request" where
  "bearer_request method url b accessToken =
     \<lparr>Method = method, URL = url, Authorization = Some (''Bearer '' @ accessToken),
      ContentType = ''application/json'', Body = b\<rparr>"

section \<open>The credential refresher\<close>

definition token_endpoint :: "string \<Rightarrow> string" where
  "token_endpoint tenantID =
     ''https://login.microsoftonline.com/'' @ tenantID @ ''/oauth2/v2.0/token''"

definition refresh_request :: "string \<Rightarrow> string \<Rightarrow> request" where
  "refresh_request refreshTok tenantID =
     \<lparr>Method = ''POST'', URL = token_endpoint tenantID, Authorization = None,
      ContentType = ''application/x-www-form-urlencoded'',
      Body = Form [(''grant_type'', ''refresh_token''),
                   (''refresh_token'', refreshTok),
                   (''scope'', ''https://graph.microsoft.com/.default'')]\<rparr>"

definition refreshToken ::
  "('w, 'p, 'r) env \<Rightarrow> string \<Rightarrow> string \<Rightarrow> 'w net \<Rightarrow> (error + TokenResponse) \<times> 'w net" where
  "refreshToken env refreshTok tenant n =
     (if refreshTok = [] then (Inl RefreshTokenRequired, n)
      else
        let tenantID = (if tenant = [] then ''common'' else tenant)
        in if \<not> NewRequest_ok env ''POST'' (token_endpoint tenantID)
           then (Inl CreateRequestFailed, n)
           else
             (case Do env (refresh_request refreshTok tenantID) n of
                (DoFailed, n') \<Rightarrow> (Inl ExecuteRequestFailed, n')
              | (Response status respBody ok, n') \<Rightarrow>
                  if \<not> ok then (Inl ReadBodyFailed, n')
                  else if status < 200 \<or> 300 \<le> status then
                    (case json_Unmarshal (unmarshal_error env) respBody of
                       None \<Rightarrow> (Inl (TokenRefreshStatus status respBody), n')
                     | Some errorResp \<Rightarrow>
                         (Inl (TokenRefreshApi (Code (Error errorResp))
                                               (Message (Error errorResp))), n'))
                  else
                    (case json_Unmarshal (unmarshal_token env) respBody of
                       None \<Rightarrow> (Inl ParseTokenResponseFailed, n')
                     | Some tokenResp \<Rightarrow>
                         if AccessToken tokenResp = []
                         then (Inl NoAccessTokenInResponse, n')
                         else (Inr tokenResp, n'))))"

section \<open>The request executor\<close>

record Client =
  accessToken :: string
  baseURL :: string

definition Client_Get ::
  "('w, 'p, 'r) env \<Rightarrow> Client \<Rightarrow> string \<Rightarrow> bool \<Rightarrow> 'w net \<Rightarrow> (error + 'r option) \<times> 'w net" where
  "Client_Get env c endpoint target n =
     (let url = baseURL c @ endpoint
      in if \<not> NewRequest_ok env ''GET'' url then (Inl CreateRequestFailed, n)
         else
           (case Do env (bearer_request ''GET'' url NoBody (accessToken c)) n of
              (DoFailed, n') \<Rightarrow> (Inl ExecuteRequestFailed, n')
            | (Response status respBody ok, n') \<Rightarrow>
                if \<not> ok then (Inl ReadBodyFailed, n')
                else if status < 200 \<or> 300 \<le> status
                then (Inl (api_error env status respBody), n')
                else
                  (case Unmarshal_result env target respBody of
                     None \<Rightarrow> (Inl UnmarshalFailed, n')
                   | Some v \<Rightarrow> (Inr (Some v), n'))))"

definition Client_Post ::
  "('w, 'p, 'r) env \<Rightarrow> Client \<Rightarrow> string \<Rightarrow> 'p option \<Rightarrow> bool \<Rightarrow> 'w net
     \<Rightarrow> (error + 'r option) \<times> 'w net" where
  "Client_Post env c endpoint payload target n =
     (let url = baseURL c @ endpoint
      in case Encode env payload of
           None \<Rightarrow> (Inl EncodePayloadFailed, n)
         | Some reqBody \<Rightarrow>
             if \<not> NewRequest_ok env ''POST'' url then (Inl CreateRequestFailed, n)
             else
               (case Do env (bearer_request ''POST'' url (Bytes reqBody) (accessToken c)) n of
                  (DoFailed, n') \<Rightarrow> (Inl ExecuteRequestFailed, n')
                | (Response status respBody ok, n') \<Rightarrow>
                    if \<not> ok then (Inl ReadBodyFailed, n')
                    else if status < 200 \<or> 300 \<le> status
                    then (Inl (api_error env status respBody), n')
                    else if target \<and> respBody \<noteq> [] then
                      (case Unmarshal_result env target respBody of
                         None \<Rightarrow> (Inl UnmarshalFailed, n')
                       | Some v \<Rightarrow> (Inr (Some v), n'))
                    else (Inr None, n')))"

definition Client_Patch ::
  "('w, 'p, 'r) env \<Rightarrow> Client \<Rightarrow> string \<Rightarrow> 'p option \<Rightarrow> bool \<Rightarrow> 'w net
     \<Rightarrow> (error + 'r option) \<times> 'w net" where
  "Client_Patch env c endpoint payload target n =
     (let url = baseURL c @ endpoint
      in case Encode env payload of
           None \<Rightarrow> (Inl EncodePayloadFailed, n)
         | Some reqBody \<Rightarrow>
             if \<not> NewRequest_ok env ''PATCH'' url then (Inl CreateRequestFailed, n)
             else
               (case Do env (bearer_request ''PATCH'' url (Bytes reqBody) (accessToken c)) n of
                  (DoFailed, n') \<Rightarrow> (Inl ExecuteRequestFailed, n')
                | (Response status respBody ok, n') \<Rightarrow>
                    if \<not> ok then (Inl ReadBodyFailed, n')
                    else if status < 200 \<or> 300 \<le> status
                    then (Inl (api_error env status respBody), n')
                    else if target \<and> respBody \<noteq> [] then
                      (case Unmarshal_result env target respBody of
                         None \<Rightarrow> (Inl UnmarshalFailed, n')
                       | Some v \<Rightarrow> (Inr (Some v), n'))
                    else (Inr None, n')))"

definition Client_Delete ::
  "('w, 'p, 'r) env \<Rightarrow> Client \<Rightarrow> string \<Rightarrow> 'w net \<Rightarrow> (error + 'r option) \<times> 'w net" where
  "Client_Delete env c endpoint n =
     (let url = baseURL c @ endpoint
      in if \<not> NewRequest_ok env ''DELETE'' url then (Inl CreateRequestFailed, n)
         else
           (case Do env (bearer_request ''DELETE'' url NoBody (accessToken c)) n of
              (DoFailed, n') \<Rightarrow> (Inl ExecuteRequestFailed, n')
            | (Response status respBody ok, n') \<Rightarrow>
                if status < 200 \<or> 300 \<le> status
                then (Inl (api_error env status respBody), n')
                else (Inr None, n')))"

section \<open>The refresh-aware client\<close>

text \<open>
  \<open>ClientWithRefresh\<close> embeds a \<open>Client\<close>. The HTTP client and the two locks are not
  fields of the model: the transport is a parameter, and each call below runs alone.
\<close>

record ClientWithRefresh =
  client :: Client
  c_refreshToken :: string
  c_tenantID :: string

definition NewClient :: "string \<Rightarrow> Client" where
  "NewClient accessTok = \<lparr>accessToken = accessTok, baseURL = ''https://graph.microsoft.com/v1.0''\<rparr>"

definition NewClientWithRefresh :: "string \<Rightarrow> string \<Rightarrow> string \<Rightarrow> ClientWithRefresh" where
  "NewClientWithRefresh accessTok refreshTok tenant =
     \<lparr>client = \<lparr>accessToken = accessTok, baseURL = ''https://graph.microsoft.com/v1.0''\<rparr>,
      c_refreshToken = refreshTok, c_tenantID = tenant\<rparr>"

definition store_tokens :: "ClientWithRefresh \<Rightarrow> TokenResponse \<Rightarrow> ClientWithRefresh" where
  \<comment> \<open>the two updates after a successful refresh, the same in both refresh paths\<close>
  "store_tokens c tokenResp =
     c\<lparr>client := (client c)\<lparr>accessToken := AccessToken tokenResp\<rparr>,
       c_refreshToken :=
         (if RefreshToken tokenResp \<noteq> [] then RefreshToken tokenResp else c_refreshToken c)\<rparr>"

definition checkAndRefreshToken ::
  "('w, 'p, 'r) env \<Rightarrow> int \<Rightarrow> ClientWithRefresh \<Rightarrow> 'w net
     \<Rightarrow> error option \<times> ClientWithRefresh \<times> 'w net" where
  "checkAndRefreshToken env now c n =
     (let parsed = ParseToken (ParseUnverified env) now (accessToken (client c));
          early =
            (case parsed of
               Inl err \<Rightarrow>
                 if c_refreshToken c = [] then Some (Some (ParseFailedNoRefresh err)) else None
             | Inr tokenInfo \<Rightarrow>
                 if \<not> IsExpired tokenInfo \<and> \<not> ExpiresSoon tokenInfo then Some None else None)
      in case early of
           Some r \<Rightarrow> (r, c, n)
         | None \<Rightarrow>
             if c_refreshToken c = [] then
               (if (case parsed of Inl err \<Rightarrow> False | Inr tokenInfo \<Rightarrow> IsExpired tokenInfo)
                then (Some ExpiredNoRefresh, c, n)
                else (None, c, n))
             else
               (case refreshToken env (c_refreshToken c) (c_tenantID c) n of
                  (Inl err, n') \<Rightarrow> (Some (RefreshFailed err), c, n')
                | (Inr tokenResp, n') \<Rightarrow> (None, store_tokens c tokenResp, n')))"

definition refreshTokenOn401 ::
  "('w, 'p, 'r) env \<Rightarrow> ClientWithRefresh \<Rightarrow> string \<Rightarrow> string \<Rightarrow> body \<Rightarrow> bool \<Rightarrow> 'w net
     \<Rightarrow> (error + 'r option) \<times> ClientWithRefresh \<times> 'w net" where
  "refreshTokenOn401 env c endpoint method reqBody target n =
     (if c_refreshToken c = [] then (Inl Got401NoRefresh, c, n)
      else
        (case refreshToken env (c_refreshToken c) (c_tenantID c) n of
           (Inl err, n1) \<Rightarrow> (Inl (Got401RefreshFailed err), c, n1)
         | (Inr tokenResp, n1) \<Rightarrow>
             let c' = store_tokens c tokenResp;
                 url = baseURL (client c') @ endpoint
             in if \<not> NewRequest_ok env method url then (Inl CreateRetryFailed, c', n1)
                else
                  (case Do env (bearer_request method url reqBody (accessToken (client c'))) n1 of
                     (DoFailed, n2) \<Rightarrow> (Inl ExecuteRetryFailed, c', n2)
                   | (Response status respBody ok, n2) \<Rightarrow>
                       if \<not> ok then (Inl ReadRetryBodyFailed, c', n2)
                       else if status < 200 \<or> 300 \<le> status
                       then (Inl (api_error_after_refresh env status respBody), c', n2)
                       else if target \<and> respBody \<noteq> [] then
                         (case Unmarshal_result env target respBody of
                            None \<Rightarrow> (Inl UnmarshalRetryFailed, c', n2)
                          | Some v \<Rightarrow> (Inr (Some v), c', n2))
                       else (Inr None, c', n2))))"

definition ClientWithRefresh_Get ::
  "('w, 'p, 'r) env \<Rightarrow> int \<Rightarrow> ClientWithRefresh \<Rightarrow> string \<Rightarrow> bool \<Rightarrow> 'w net
     \<Rightarrow> (error + 'r option) \<times> ClientWithRefresh \<times> 'w net" where
  "ClientWithRefresh_Get env now c0 endpoint target n0 =
     (case checkAndRefreshToken env now c0 n0 of
        (Some err, c, n) \<Rightarrow> (Inl (TokenCheckFailed err), c, n)
      | (None, c, n) \<Rightarrow>
          let url = baseURL (client c) @ endpoint
          in if \<not> NewRequest_ok env ''GET'' url then (Inl CreateRequestFailed, c, n)
             else
               (case Do env (bearer_request ''GET'' url NoBody (accessToken (client c))) n of
                  (DoFailed, n') \<Rightarrow> (Inl ExecuteRequestFailed, c, n')
                | (Response status respBody ok, n') \<Rightarrow>
                    if \<not> ok then (Inl ReadBodyFailed, c, n')
                    else if status = 401
                    then refreshTokenOn401 env c endpoint ''GET'' NoBody target n'
                    else if status < 200 \<or> 300 \<le> status
                    then (Inl (api_error env status respBody), c, n')
                    else
                      (case Unmarshal_result env target respBody of
                         None \<Rightarrow> (Inl UnmarshalFailed, c, n')
                       | Some v \<Rightarrow> (Inr (Some v), c, n'))))"

definition retry_body :: "('w, 'p, 'r) env \<Rightarrow> 'p option \<Rightarrow> body" where
  \<comment> \<open>\<open>retryBody\<close>: the payload encoded again, an encoding error ignored\<close>
  "retry_body env payload = Bytes (case Encode env payload of None \<Rightarrow> [] | Some b \<Rightarrow> b)"

definition ClientWithRefresh_Post ::
  "('w, 'p, 'r) env \<Rightarrow> int \<Rightarrow> ClientWithRefresh \<Rightarrow> string \<Rightarrow> 'p option \<Rightarrow> bool \<Rightarrow> 'w net
     \<Rightarrow> (error + 'r option) \<times> ClientWithRefresh \<times> 'w net" where
  "ClientWithRefresh_Post env now c0 endpoint payload target n0 =
     (case checkAndRefreshToken env now c0 n0 of
        (Some err, c, n) \<Rightarrow> (Inl (TokenCheckFailed err), c, n)
      | (None, c, n) \<Rightarrow>
          (case Encode env payload of
             None \<Rightarrow> (Inl EncodePayloadFailed, c, n)
           | Some reqBody \<Rightarrow>
               let url = baseURL (client c) @ endpoint
               in if \<not> NewRequest_ok env ''POST'' url then (Inl CreateRequestFailed, c, n)
                  else
                    (case Do env (bearer_request ''POST'' url (Bytes reqBody)
                                    (accessToken (client c))) n of
                       (DoFailed, n') \<Rightarrow> (Inl ExecuteRequestFailed, c, n')
                     | (Response status respBody ok, n') \<Rightarrow>
                         if \<not> ok then (Inl ReadBodyFailed, c, n')
                         else if status = 401
                         then refreshTokenOn401 env c endpoint ''POST''
                                (retry_body env payload) target n'
                         else if status < 200 \<or> 300 \<le> status
                         then (Inl (api_error env status respBody), c, n')
                         else if target \<and> respBody \<noteq> [] then
                           (case Unmarshal_result env target respBody of
                              None \<Rightarrow> (Inl UnmarshalFailed, c, n')
                            | Some v \<Rightarrow> (Inr (Some v), c, n'))
                         else (Inr None, c, n'))))"

definition ClientWithRefresh_Patch ::
  "('w, 'p, 'r) env \<Rightarrow> int \<Rightarrow> ClientWithRefresh \<Rightarrow> string \<Rightarrow> 'p option \<Rightarrow> bool \<Rightarrow> 'w net
     \<Rightarrow> (error + 'r option) \<times> ClientWithRefresh \<times> 'w net" where
  "ClientWithRefresh_Patch env now c0 endpoint payload target n0 =
     (case checkAndRefreshToken env now c0 n0 of
        (Some err, c, n) \<Rightarrow> (Inl (TokenCheckFailed err), c, n)
      | (None, c, n) \<Rightarrow>
          (case Encode env payload of
             None \<Rightarrow> (Inl EncodePayloadFailed, c, n)
           | Some reqBody \<Rightarrow>
               let url = baseURL (client c) @ endpoint
               in if \<not> NewRequest_ok env ''PATCH'' url then (Inl CreateRequestFailed, c, n)
                  else
                    (case Do env (bearer_request ''PATCH'' url (Bytes reqBody)
                                    (accessToken (client c))) n of
                       (DoFailed, n') \<Rightarrow> (Inl ExecuteRequestFailed, c, n')
                     | (Response status respBody ok, n') \<Rightarrow>
                         if \<not> ok then (Inl ReadBodyFailed, c, n')
                         else if status = 401
                         then refreshTokenOn401 env c endpoint ''PATCH''
                                (retry_body env payload) target n'
                         else if status < 200 \<or> 300 \<le> status
                         then (Inl (api_error env status respBody), c, n')
                         else if target \<and> respBody \<noteq> [] then
                           (case Unmarshal_result env target respBody of
                              None \<Rightarrow> (Inl UnmarshalFailed, c, n')
                            | Some v \<Rightarrow> (Inr (Some v), c, n'))
                         else (Inr None, c, n'))))"

definition ClientWithRefresh_Delete ::
  "('w, 'p, 'r) env \<Rightarrow> int \<Rightarrow> ClientWithRefresh \<Rightarrow> string \<Rightarrow> 'w net
     \<Rightarrow> (error + 'r option) \<times> ClientWithRefresh \<times> 'w net" where
  "ClientWithRefresh_Delete env now c0 endpoint n0 =
     (case checkAndRefreshToken env now c0 n0 of
        (Some err, c, n) \<Rightarrow> (Inl (TokenCheckFailed err), c, n)
      | (None, c, n) \<Rightarrow>
          let url = baseURL (client c) @ endpoint
          in if \<not> NewRequest_ok env ''DELETE'' url then (Inl CreateRequestFailed, c, n)
             else
               (case Do env (bearer_request ''DELETE'' url NoBody (accessToken (client c))) n of
                  (DoFailed, n') \<Rightarrow> (Inl ExecuteRequestFailed, c, n')
                | (Response status respBody ok, n') \<Rightarrow>
                    if status = 401
                    then refreshTokenOn401 env c endpoint ''DELETE'' NoBody False n'
                    else if status < 200 \<or> 300 \<le> status
                    then (Inl (api_error env status respBody), c, n')
                    else (Inr None, c, n')))"

text \<open>
  The four operations of the refresh-aware client under one name, to speak of "every
  request operation": the verb, with the payload of a \<open>Post\<close> or \<open>Patch\<close>.
\<close>

datatype 'p operation = OpGet | OpPost "'p option" | OpPatch "'p option" | OpDelete

definition op_method :: "'p operation \<Rightarrow> string" where
  "op_method opn =
     (case opn of OpGet \<Rightarrow> ''GET'' | OpPost p \<Rightarrow> ''POST'' | OpPatch p \<Rightarrow> ''PATCH''
                | OpDelete \<Rightarrow> ''DELETE'')"

definition ClientWithRefresh_call ::
  "('w, 'p, 'r) env \<Rightarrow> int \<Rightarrow> ClientWithRefresh \<Rightarrow> 'p operation \<Rightarrow> string \<Rightarrow> bool \<Rightarrow> 'w net
     \<Rightarrow> (error + 'r option) \<times> ClientWithRefresh \<times> 'w net" where
  "ClientWithRefresh_call env now c opn endpoint target n =
     (case opn of
        OpGet \<Rightarrow> ClientWithRefresh_Get env now c endpoint target n
      | OpPost payload \<Rightarrow> ClientWithRefresh_Post env now c endpoint payload target n
      | OpPatch payload \<Rightarrow> ClientWithRefresh_Patch env now c endpoint payload target n
      | OpDelete \<Rightarrow> ClientWithRefresh_Delete env now c endpoint n)"

definition op_body :: "('w, 'p, 'r) env \<Rightarrow> 'p operation \<Rightarrow> body option" where
  \<comment> \<open>the body an operation sends; \<open>None\<close> when its payload cannot be encoded\<close>
  "op_body env opn =
     (case opn of
        OpGet \<Rightarrow> Some NoBody
      | OpPost payload \<Rightarrow> map_option Bytes (Encode env payload)
      | OpPatch payload \<Rightarrow> map_option Bytes (Encode env payload)
      | OpDelete \<Rightarrow> Some NoBody)"

definition needs_refresh :: "('w, 'p, 'r) env \<Rightarrow> int \<Rightarrow> ClientWithRefresh \<Rightarrow> bool" where
  \<comment> \<open>the access token is expired, expiring soon, or cannot be parsed\<close>
  "needs_refresh env now c =
     (case ParseToken (ParseUnverified env) now (accessToken (client c)) of
        Inl err \<Rightarrow> True
      | Inr tokenInfo \<Rightarrow> IsExpired tokenInfo \<or> ExpiresSoon tokenInfo)"

section \<open>A concrete environment\<close>

text \<open>
  A small world to run the model in: tokens named after their state, a transport that
  plays back a script of responses, and decoders that know a handful of bodies.
  \<open>http.NewRequest\<close> parses the URL, and \<open>net/url\<close> refuses a URL that holds an ASCII
  control character; \<open>url_accepted\<close> is that one check, enough for the URLs of the runs
  below, none of which the library refuses for another reason.
\<close>

definition demo_parser :: jwt_parser where
  "demo_parser tok =
     (if tok = ''expired'' then Some (MapClaims [''exp'' \<mapsto> Int64 900])
      else if tok = ''soon'' then Some (MapClaims [''exp'' \<mapsto> Float64 1300])
      else if tok = ''fresh'' then Some (MapClaims [''exp'' \<mapsto> Float64 5000])
      else if tok = ''fractional'' then Some (MapClaims [''exp'' \<mapsto> Float64 (2001 / 2)])
      else if tok = ''noexp'' then Some (MapClaims [''sub'' \<mapsto> NonNumeric])
      else if tok = ''textexp'' then Some (MapClaims [''exp'' \<mapsto> NonNumeric])
      else None)"

definition demo_now :: int where
  "demo_now = 1000 * Second"

definition scripted :: "response list \<Rightarrow> request \<Rightarrow> response \<times> response list" where
  "scripted w req = (case w of [] \<Rightarrow> (DoFailed, []) | r # rs \<Rightarrow> (r, rs))"

definition control_char :: "char \<Rightarrow> bool" where
  "control_char ch = ((of_char ch :: nat) < 32 \<or> (of_char ch :: nat) = 127)"

definition url_accepted :: "string \<Rightarrow> string \<Rightarrow> bool" where
  "url_accepted method url = list_all (\<lambda>ch. \<not> control_char ch) url"

definition demo_unmarshal_error :: "string \<Rightarrow> ErrorResponse option" where
  "demo_unmarshal_error data =
     (if data = ''error-json''
      then Some \<lparr>Error = \<lparr>Code = ''invalid_grant'', Message = ''revoked''\<rparr>\<rparr>
      else None)"

definition demo_unmarshal_token :: "string \<Rightarrow> TokenResponse option" where
  "demo_unmarshal_token data =
     (if data = ''rotate''
      then Some \<lparr>AccessToken = ''fresh'', TokenType = ''Bearer'', ExpiresIn = 3600,
                 RefreshToken = ''rt2'', Scope = []\<rparr>
      else if data = ''keep''
      then Some \<lparr>AccessToken = ''fresh'', TokenType = ''Bearer'', ExpiresIn = 3600,
                 RefreshToken = [], Scope = []\<rparr>
      else if data = ''no-access-token''
      then Some \<lparr>AccessToken = [], TokenType = [], ExpiresIn = 0,
                 RefreshToken = [], Scope = []\<rparr>
      else if data = ''renew''
      then Some \<lparr>AccessToken = ''renewed'', TokenType = ''Bearer'', ExpiresIn = 3600,
                 RefreshToken = ''rt2'', Scope = []\<rparr>
      else None)"

definition demo_env :: "(response list, string, string) env" where
  "demo_env =
     \<lparr>ParseUnverified = demo_parser, NewRequest_ok = url_accepted, transport = scripted,
      unmarshal_error = demo_unmarshal_error, unmarshal_token = demo_unmarshal_token,
      unmarshal_result = Some, encode_payload = Some\<rparr>"

definition script :: "response list \<Rightarrow> response list net" where
  "script rs = \<lparr>world = rs, sent = []\<rparr>"

section \<open>Token inspection: outcomes and expiry state\<close>

lemma ParseToken_numeric:
  assumes "claims_of P s = Some m" "m ''exp'' = Some v" "numeric v"
  shows "ParseToken P now s =
           Inr \<lparr>ExpiresAt = time_Unix (exp_seconds v),
                IsExpired = time_After now (time_Unix (exp_seconds v)),
                TimeUntilExp = time_Sub (time_Unix (exp_seconds v)) now,
                ExpiresSoon = (\<not> time_After now (time_Unix (exp_seconds v)) \<and>
                               time_Sub (time_Unix (exp_seconds v)) now < 10 * Minute)\<rparr>"
  using assms
  by (auto simp: ParseToken_def claims_of_def numeric_def exp_seconds_def Let_def
           split: option.splits jwt_claims.splits claim_value.splits)

lemma time_Sub_soon: "u \<le> t \<Longrightarrow> (time_Sub t u < 10 * Minute) = (t - u < 600 * Second)"
  by (simp add: time_Sub_def Let_def Minute_def Second_def maxDuration_def minDuration_def)

lemma time_Sub_neg: "t < u \<Longrightarrow> time_Sub t u < 0"
  by (simp add: time_Sub_def Let_def maxDuration_def minDuration_def)

text \<open>
  Claim C8. Token inspection fails with a decode error exactly on the strings that are
  not a well-formed JWT (the parser rejects them, or the claims are not a claims map),
  with the missing-claim error exactly on the well-formed tokens whose claims have no
  \<open>exp\<close>, with the invalid-claim-type error exactly on the well-formed tokens whose
  \<open>exp\<close> is present and not numeric, and succeeds exactly on the well-formed tokens
  whose \<open>exp\<close> is numeric.
\<close>

theorem ParseToken_outcome:
  "((\<exists>e. ParseToken P now s = Inl e \<and> decode_error e) \<longleftrightarrow> claims_of P s = None) \<and>
   (ParseToken P now s = Inl NoExpirationClaim \<longleftrightarrow>
      (\<exists>m. claims_of P s = Some m \<and> m ''exp'' = None)) \<and>
   (ParseToken P now s = Inl InvalidExpirationType \<longleftrightarrow>
      (\<exists>m v. claims_of P s = Some m \<and> m ''exp'' = Some v \<and> \<not> numeric v)) \<and>
   ((\<exists>info. ParseToken P now s = Inr info) \<longleftrightarrow>
      (\<exists>m v. claims_of P s = Some m \<and> m ''exp'' = Some v \<and> numeric v))"
  by (auto simp: ParseToken_def claims_of_def numeric_def decode_error_def Let_def
           split: option.splits jwt_claims.splits claim_value.splits)

theorem ParseToken_outcome_witness:
  "(\<exists>e. ParseToken demo_parser demo_now ''garbage'' = Inl e \<and> decode_error e) \<and>
   ParseToken demo_parser demo_now ''noexp'' = Inl NoExpirationClaim \<and>
   ParseToken demo_parser demo_now ''textexp'' = Inl InvalidExpirationType \<and>
   (\<exists>info. ParseToken demo_parser demo_now ''fresh'' = Inr info)"
proof -
  have a: "claims_of demo_parser ''garbage'' = None"
    by (simp add: claims_of_def demo_parser_def)
  have b: "\<exists>m. claims_of demo_parser ''noexp'' = Some m \<and> m ''exp'' = None"
    by (simp add: claims_of_def demo_parser_def)
  have c: "\<exists>m v. claims_of demo_parser ''textexp'' = Some m \<and> m ''exp'' = Some v \<and> \<not> numeric v"
    by (simp add: claims_of_def demo_parser_def numeric_def)
  have d: "\<exists>m v. claims_of demo_parser ''fresh'' = Some m \<and> m ''exp'' = Some v \<and> numeric v"
    by (simp add: claims_of_def demo_parser_def numeric_def)
  note A = ParseToken_outcome [of demo_parser demo_now "''garbage''",
      THEN conjunct1, THEN iffD2, OF a]
  note B = ParseToken_outcome [of demo_parser demo_now "''noexp''",
      THEN conjunct2, THEN conjunct1, THEN iffD2, OF b]
  note C = ParseToken_outcome [of demo_parser demo_now "''textexp''",
      THEN conjunct2, THEN conjunct2, THEN conjunct1, THEN iffD2, OF c]
  note D = ParseToken_outcome [of demo_parser demo_now "''fresh''",
      THEN conjunct2, THEN conjunct2, THEN conjunct2, THEN iffD2, OF d]
  show ?thesis
    using A B C D by (intro conjI)
qed

text \<open>
  Claim C4, as the code has it. Let \<open>E\<close> be the \<open>exp\<close> claim of a well-formed token
  as the code reads it: a numeric claim cut to whole seconds (toward zero), of magnitude
  at most \<open>2 ^ 62\<close>. If \<open>E\<close> lies after the current time, inspection reports
  is-expired false, and expires-soon true exactly when less than 600 seconds remain. If
  \<open>E\<close> lies before the current time, inspection reports is-expired true, expires-soon
  false and a negative time until expiry.
\<close>

theorem ParseToken_expiry:
  assumes "claims_of P s = Some m" and "m ''exp'' = Some v" and "numeric v"
    and "seconds_in_range (exp_seconds v)"
  shows "\<exists>info. ParseToken P now s = Inr info \<and>
           (now < time_Unix (exp_seconds v) \<longrightarrow>
              \<not> IsExpired info \<and>
              (ExpiresSoon info \<longleftrightarrow> time_Unix (exp_seconds v) - now < 600 * Second)) \<and>
           (time_Unix (exp_seconds v) < now \<longrightarrow>
              IsExpired info \<and> \<not> ExpiresSoon info \<and> TimeUntilExp info < 0)"
  using ParseToken_numeric [OF assms(1-3), of now]
  by (auto simp: time_After_def time_Sub_soon time_Sub_neg)

theorem ParseToken_expiry_witness:
  "seconds_in_range (exp_seconds (Float64 1300)) \<and> demo_now < time_Unix (exp_seconds (Float64 1300)) \<and>
   (\<exists>info. ParseToken demo_parser demo_now ''soon'' = Inr info \<and>
      \<not> IsExpired info \<and> ExpiresSoon info)"
proof -
  have a: "claims_of demo_parser ''soon'' = Some [''exp'' \<mapsto> Float64 1300]"
    by (simp add: claims_of_def demo_parser_def)
  have b: "[''exp'' \<mapsto> Float64 1300] ''exp'' = Some (Float64 1300)" by simp
  have c: "numeric (Float64 1300)" by (simp add: numeric_def)
  have d: "seconds_in_range (exp_seconds (Float64 1300))"
    by (simp add: seconds_in_range_def exp_seconds_def int64_of_float64_def)
  show ?thesis
    using d ParseToken_expiry [OF a b c d, of demo_now]
    by (auto simp: exp_seconds_def int64_of_float64_def time_Unix_def demo_now_def Second_def)
qed

text \<open>
  The claim as stated fails on a fractional \<open>exp\<close>: the token below carries
  \<open>exp = 1000.5\<close>, a quarter of a second after the current time \<open>1000.25 s\<close>, and is
  reported as expired, because \<open>int64(v)\<close> drops the half second.
\<close>

theorem ParseToken_fractional_counterexample:
  "exp_claim demo_parser ''fractional'' = Some (Float64 (2001 / 2)) \<and>
   exp_value (Float64 (2001 / 2)) * of_int Second - of_int 1000250000000 = of_int Second / 4 \<and>
   ParseToken demo_parser 1000250000000 ''fractional'' =
     Inr \<lparr>ExpiresAt = 1000000000000, IsExpired = True,
          TimeUntilExp = - 250000000, ExpiresSoon = False\<rparr>"
  by (simp add: exp_claim_def claims_of_def demo_parser_def exp_value_def Second_def ParseToken_def
        time_Unix_def int64_of_float64_def time_Sub_def time_After_def Let_def
        maxDuration_def minDuration_def Minute_def)

section \<open>The refresher and the pre-flight check, step by step\<close>

lemma refreshToken_empty: "refreshToken env [] tenant n = (Inl RefreshTokenRequired, n)"
  by (simp add: refreshToken_def)

lemma refreshToken_sent:
  assumes "refreshTok \<noteq> []"
    and "NewRequest_ok env ''POST'' (token_endpoint (if tenant = [] then ''common'' else tenant))"
  shows "sent (snd (refreshToken env refreshTok tenant n)) =
           sent n @ [refresh_request refreshTok (if tenant = [] then ''common'' else tenant)]"
  using assms
  by (auto simp: refreshToken_def Do_def Let_def
           split: prod.splits response.splits option.splits)

lemma refreshToken_rejected:
  assumes "refreshTok \<noteq> []"
    and "\<not> NewRequest_ok env ''POST'' (token_endpoint (if tenant = [] then ''common'' else tenant))"
  shows "refreshToken env refreshTok tenant n = (Inl CreateRequestFailed, n)"
  using assms by (simp add: refreshToken_def Let_def)

lemma refreshToken_Inr:
  assumes "refreshToken env refreshTok tenant n = (Inr tokenResp, n')"
  shows "refreshTok \<noteq> []"
    and "NewRequest_ok env ''POST'' (token_endpoint (if tenant = [] then ''common'' else tenant))"
    and "AccessToken tokenResp \<noteq> []"
    and "sent n' = sent n @ [refresh_request refreshTok (if tenant = [] then ''common'' else tenant)]"
  using assms
  by (auto simp: refreshToken_def Do_def Let_def
           split: prod.splits response.splits option.splits if_splits)

lemma refreshToken_at_most_one:
  "sent (snd (refreshToken env refreshTok tenant n)) = sent n \<or>
   sent (snd (refreshToken env refreshTok tenant n)) =
     sent n @ [refresh_request refreshTok (if tenant = [] then ''common'' else tenant)]"
  by (auto simp: refreshToken_def Do_def Let_def
           split: prod.splits response.splits option.splits)

lemma refreshToken_2xx_without_access_token:
  assumes "refreshTok \<noteq> []"
    and "NewRequest_ok env ''POST'' (token_endpoint (if tenant = [] then ''common'' else tenant))"
    and "transport env (world n)
           (refresh_request refreshTok (if tenant = [] then ''common'' else tenant))
         = (Response status respBody ok, w')"
    and "200 \<le> status" and "status < 300"
    and "\<forall>tokenResp. json_Unmarshal (unmarshal_token env) respBody = Some tokenResp
           \<longrightarrow> AccessToken tokenResp = []"
  shows "\<exists>e. fst (refreshToken env refreshTok tenant n) = Inl e"
  using assms
  by (auto simp: refreshToken_def Do_def Let_def
           split: prod.splits response.splits option.splits)

lemma check_expired_no_refresh:
  assumes "ParseToken (ParseUnverified env) now (accessToken (client c)) = Inr info"
    and "IsExpired info" and "c_refreshToken c = []"
  shows "checkAndRefreshToken env now c n = (Some ExpiredNoRefresh, c, n)"
  using assms by (simp add: checkAndRefreshToken_def Let_def)

lemma check_valid_no_refresh:
  assumes "ParseToken (ParseUnverified env) now (accessToken (client c)) = Inr info"
    and "\<not> IsExpired info" and "c_refreshToken c = []"
  shows "checkAndRefreshToken env now c n = (None, c, n)"
  using assms by (simp add: checkAndRefreshToken_def Let_def)

lemma check_refresh_failed:
  assumes "needs_refresh env now c" and "c_refreshToken c \<noteq> []"
    and "refreshToken env (c_refreshToken c) (c_tenantID c) n = (Inl e, n')"
  shows "checkAndRefreshToken env now c n = (Some (RefreshFailed e), c, n')"
  using assms
  by (auto simp: checkAndRefreshToken_def needs_refresh_def Let_def split: sum.splits)

lemma check_refresh_succeeded:
  assumes "needs_refresh env now c"
    and "refreshToken env (c_refreshToken c) (c_tenantID c) n = (Inr tokenResp, n')"
  shows "checkAndRefreshToken env now c n = (None, store_tokens c tokenResp, n')"
  using assms refreshToken_Inr(1) [OF assms(2)]
  by (auto simp: checkAndRefreshToken_def needs_refresh_def Let_def split: sum.splits)

lemma call_check_failed:
  assumes "checkAndRefreshToken env now c0 n0 = (Some e, c, n)"
  shows "ClientWithRefresh_call env now c0 opn endpoint target n0 = (Inl (TokenCheckFailed e), c, n)"
  using assms
  by (cases opn)
     (simp_all add: ClientWithRefresh_call_def ClientWithRefresh_Get_def ClientWithRefresh_Post_def
        ClientWithRefresh_Patch_def ClientWithRefresh_Delete_def)

lemma store_tokens_fields:
  "accessToken (client (store_tokens c tr)) = AccessToken tr"
  "c_refreshToken (store_tokens c tr) = (if RefreshToken tr \<noteq> [] then RefreshToken tr else c_refreshToken c)"
  "c_tenantID (store_tokens c tr) = c_tenantID c"
  "baseURL (client (store_tokens c tr)) = baseURL (client c)"
  by (simp_all add: store_tokens_def)

lemma on401_no_refresh_token:
  "c_refreshToken c = [] \<Longrightarrow>
     refreshTokenOn401 env c endpoint verb b target n = (Inl Got401NoRefresh, c, n)"
  by (simp add: refreshTokenOn401_def)

lemma on401_refresh_failed:
  assumes "c_refreshToken c \<noteq> []"
    and "refreshToken env (c_refreshToken c) (c_tenantID c) n = (Inl e, n1)"
  shows "refreshTokenOn401 env c endpoint verb b target n = (Inl (Got401RefreshFailed e), c, n1)"
  using assms by (simp add: refreshTokenOn401_def)

lemma on401_client:
  assumes "refreshToken env (c_refreshToken c) (c_tenantID c) n = (Inr tr, n1)"
  shows "fst (snd (refreshTokenOn401 env c endpoint verb b target n)) = store_tokens c tr"
  using assms refreshToken_Inr(1) [OF assms]
  by (auto simp: refreshTokenOn401_def Let_def Do_def
           split: prod.splits response.splits option.splits)

lemma on401_retry:
  assumes "refreshToken env (c_refreshToken c) (c_tenantID c) n = (Inr tr, n1)"
    and "NewRequest_ok env verb (baseURL (client c) @ endpoint)"
    and "transport env (world n1)
           (bearer_request verb (baseURL (client c) @ endpoint) b (AccessToken tr)) = (resp2, w2)"
  shows "snd (snd (refreshTokenOn401 env c endpoint verb b target n)) =
           \<lparr>world = w2,
            sent = sent n1 @ [bearer_request verb (baseURL (client c) @ endpoint) b (AccessToken tr)]\<rparr>"
    and "resp2 = Response 401 rb2 ok2 \<Longrightarrow>
           \<exists>e. fst (refreshTokenOn401 env c endpoint verb b target n) = Inl e"
  using assms refreshToken_Inr(1) [OF assms(1)]
  by (auto simp: refreshTokenOn401_def Let_def Do_def store_tokens_fields
           split: prod.splits response.splits option.splits)

lemma on401_sent_extends:
  "\<exists>xs. sent (snd (snd (refreshTokenOn401 env c endpoint verb b target n))) = sent n @ xs"
proof (cases "refreshToken env (c_refreshToken c) (c_tenantID c) n")
  case (Pair r n1)
  have ext: "\<exists>ys. sent n1 = sent n @ ys"
    using refreshToken_at_most_one [of env "c_refreshToken c" "c_tenantID c" n] Pair by auto
  then obtain ys where ys: "sent n1 = sent n @ ys" ..
  show ?thesis
    using Pair ys
    by (auto simp: refreshTokenOn401_def Let_def Do_def
             split: prod.splits response.splits option.splits sum.splits)
qed

lemma call_after_check:
  assumes "checkAndRefreshToken env now c0 n0 = (None, c, n)"
    and "op_body env opn = Some b"
    and "NewRequest_ok env (op_method opn) (baseURL (client c) @ endpoint)"
    and "transport env (world n)
           (bearer_request (op_method opn) (baseURL (client c) @ endpoint) b (accessToken (client c)))
         = (Response 401 rb ok, w1)"
    and "ok \<or> opn = OpDelete"
  shows "ClientWithRefresh_call env now c0 opn endpoint target n0 =
           refreshTokenOn401 env c endpoint (op_method opn) b (target \<and> opn \<noteq> OpDelete)
             \<lparr>world = w1,
              sent = sent n @ [bearer_request (op_method opn) (baseURL (client c) @ endpoint) b
                                 (accessToken (client c))]\<rparr>"
  using assms
  by (cases opn)
     (auto simp: ClientWithRefresh_call_def ClientWithRefresh_Get_def ClientWithRefresh_Post_def
        ClientWithRefresh_Patch_def ClientWithRefresh_Delete_def op_body_def op_method_def
        retry_body_def Let_def Do_def split: option.splits)

lemma call_first_request:
  assumes "checkAndRefreshToken env now c0 n0 = (None, c, n)"
    and "op_body env opn = Some b"
    and "NewRequest_ok env (op_method opn) (baseURL (client c) @ endpoint)"
  shows "\<exists>rest. sent (snd (snd (ClientWithRefresh_call env now c0 opn endpoint target n0))) =
           sent n @ bearer_request (op_method opn) (baseURL (client c) @ endpoint) b
                      (accessToken (client c)) # rest"
proof -
  let ?req = "bearer_request (op_method opn) (baseURL (client c) @ endpoint) b (accessToken (client c))"
  obtain resp w1 where tr: "transport env (world n) ?req = (resp, w1)"
    by (cases "transport env (world n) ?req")
  let ?n1 = "\<lparr>world = w1, sent = sent n @ [?req]\<rparr>"
  have ext: "\<exists>xs. sent (snd (snd (refreshTokenOn401 env c endpoint m b' t ?n1))) = (sent n @ [?req]) @ xs"
    for m b' t
    using on401_sent_extends [of env c endpoint m b' t ?n1] by simp
  show ?thesis
    using assms tr ext
    by (cases opn)
       (auto simp: ClientWithRefresh_call_def ClientWithRefresh_Get_def ClientWithRefresh_Post_def
          ClientWithRefresh_Patch_def ClientWithRefresh_Delete_def op_body_def op_method_def
          Let_def Do_def split: option.splits response.splits)
qed

lemma call_unreadable_401:
  assumes "checkAndRefreshToken env now c0 n0 = (None, c, n)"
    and "op_body env opn = Some b"
    and "NewRequest_ok env (op_method opn) (baseURL (client c) @ endpoint)"
    and "transport env (world n)
           (bearer_request (op_method opn) (baseURL (client c) @ endpoint) b (accessToken (client c)))
         = (Response status rb False, w1)"
    and "opn \<noteq> OpDelete"
  shows "ClientWithRefresh_call env now c0 opn endpoint target n0 =
           (Inl ReadBodyFailed, c,
            \<lparr>world = w1,
             sent = sent n @ [bearer_request (op_method opn) (baseURL (client c) @ endpoint) b
                                (accessToken (client c))]\<rparr>)"
  using assms
  by (cases opn)
     (auto simp: ClientWithRefresh_call_def ClientWithRefresh_Get_def ClientWithRefresh_Post_def
        ClientWithRefresh_Patch_def op_body_def op_method_def Let_def Do_def
        split: option.splits)

lemma check_sends_refresh:
  assumes "needs_refresh env now c" and "c_refreshToken c \<noteq> []"
    and "NewRequest_ok env ''POST''
           (token_endpoint (if c_tenantID c = [] then ''common'' else c_tenantID c))"
  shows "sent (snd (snd (checkAndRefreshToken env now c n))) =
           sent n @ [refresh_request (c_refreshToken c)
                       (if c_tenantID c = [] then ''common'' else c_tenantID c)]"
proof -
  have "snd (snd (checkAndRefreshToken env now c n)) =
          snd (refreshToken env (c_refreshToken c) (c_tenantID c) n)"
    using assms(1,2)
    by (auto simp: checkAndRefreshToken_def needs_refresh_def Let_def
             split: sum.splits prod.splits)
  then show ?thesis
    using refreshToken_sent [OF assms(2,3), of n] by simp
qed

lemma on401_sends_refresh_first:
  assumes "c_refreshToken c \<noteq> []"
    and "NewRequest_ok env ''POST''
           (token_endpoint (if c_tenantID c = [] then ''common'' else c_tenantID c))"
  shows "\<exists>rest. sent (snd (snd (refreshTokenOn401 env c endpoint verb b target n))) =
           sent n @ refresh_request (c_refreshToken c)
                      (if c_tenantID c = [] then ''common'' else c_tenantID c) # rest"
proof (cases "refreshToken env (c_refreshToken c) (c_tenantID c) n")
  case (Pair r n1)
  have s: "sent n1 = sent n @ [refresh_request (c_refreshToken c)
                                 (if c_tenantID c = [] then ''common'' else c_tenantID c)]"
    using refreshToken_sent [OF assms, of n] Pair by simp
  show ?thesis
    using Pair s assms(1)
    by (auto simp: refreshTokenOn401_def Let_def Do_def
             split: prod.splits response.splits option.splits sum.splits)
qed

section \<open>Runs in the concrete environment\<close>

lemmas time_defs = Second_def Minute_def maxDuration_def minDuration_def time_Unix_def
  time_Sub_def time_After_def int64_of_float64_def

lemmas demo_defs = demo_env_def demo_parser_def demo_now_def scripted_def url_accepted_def
  control_char_def demo_unmarshal_error_def demo_unmarshal_token_def script_def
  NewClient_def NewClientWithRefresh_def

lemmas executor_defs = Do_def json_Unmarshal_def Unmarshal_result_def Encode_def api_error_def
  api_error_after_refresh_def bearer_request_def token_endpoint_def refresh_request_def
  refreshToken_def store_tokens_def

lemmas client_defs = ClientWithRefresh_call_def ClientWithRefresh_Get_def
  ClientWithRefresh_Post_def ClientWithRefresh_Patch_def ClientWithRefresh_Delete_def
  checkAndRefreshToken_def refreshTokenOn401_def retry_body_def ParseToken_def
  Client_Get_def Client_Post_def Client_Patch_def Client_Delete_def

lemma demo_soon:
  "ParseToken demo_parser demo_now ''soon'' =
     Inr \<lparr>ExpiresAt = 1300000000000, IsExpired = False,
          TimeUntilExp = 300000000000, ExpiresSoon = True\<rparr>"
  by (simp add: ParseToken_def demo_parser_def demo_now_def time_defs Let_def)

lemma demo_expired:
  "ParseToken demo_parser demo_now ''expired'' =
     Inr \<lparr>ExpiresAt = 900000000000, IsExpired = True,
          TimeUntilExp = - 100000000000, ExpiresSoon = False\<rparr>"
  by (simp add: ParseToken_def demo_parser_def demo_now_def time_defs Let_def)

lemma demo_refresh_500:
  "refreshToken demo_env ''rt'' [] (script (Response 500 ''busy'' True # rs)) =
     (Inl (TokenRefreshStatus 500 ''busy''),
      \<lparr>world = rs, sent = [refresh_request ''rt'' ''common'']\<rparr>)"
  by (simp add: executor_defs demo_defs Let_def)

lemma demo_in_range:
  "exp_in_range (ParseUnverified demo_env) ''expired''"
  "exp_in_range (ParseUnverified demo_env) ''soon''"
  by (simp_all add: exp_in_range_def exp_claim_def claims_of_def demo_env_def demo_parser_def
        seconds_in_range_def exp_seconds_def int64_of_float64_def)

section \<open>The credential refresher\<close>

text \<open>
  Claim C7, as the code has it. With an empty refresh token the refresher fails with
  "refresh token is required" and sends nothing. With a non-empty one, and when
  \<open>http.NewRequest\<close> accepts the token URL, it sends exactly one request: a POST to
  \<open>https://login.microsoftonline.com/{tenantID}/oauth2/v2.0/token\<close>, the tenant being
  \<open>common\<close> when none is given, with content type
  \<open>application/x-www-form-urlencoded\<close> and the form fields \<open>grant_type=refresh_token\<close>,
  the refresh token and the fixed scope; and a 2xx answer whose body decodes to no access
  token, or does not decode, is an error. When \<open>http.NewRequest\<close> refuses the token URL,
  the refresher fails with "failed to create request" and sends nothing.
\<close>

theorem refreshToken_request:
  assumes "tenantID = (if tenant = [] then ''common'' else tenant)"
    and "req = \<lparr>Method = ''POST'',
                URL = ''https://login.microsoftonline.com/'' @ tenantID @ ''/oauth2/v2.0/token'',
                Authorization = None,
                ContentType = ''application/x-www-form-urlencoded'',
                Body = Form [(''grant_type'', ''refresh_token''),
                             (''refresh_token'', refreshTok),
                             (''scope'', ''https://graph.microsoft.com/.default'')]\<rparr>"
  shows "refreshToken env [] tenant n = (Inl RefreshTokenRequired, n) \<and>
         (refreshTok \<noteq> [] \<and> NewRequest_ok env ''POST'' (URL req) \<longrightarrow>
            sent (snd (refreshToken env refreshTok tenant n)) = sent n @ [req] \<and>
            (\<forall>status respBody ok w'.
               transport env (world n) req = (Response status respBody ok, w') \<and>
               200 \<le> status \<and> status < 300 \<and>
               (\<forall>tokenResp. json_Unmarshal (unmarshal_token env) respBody = Some tokenResp
                  \<longrightarrow> AccessToken tokenResp = []) \<longrightarrow>
               (\<exists>e. fst (refreshToken env refreshTok tenant n) = Inl e))) \<and>
         (refreshTok \<noteq> [] \<and> \<not> NewRequest_ok env ''POST'' (URL req) \<longrightarrow>
            refreshToken env refreshTok tenant n = (Inl CreateRequestFailed, n))"
proof -
  have req: "req = refresh_request refreshTok (if tenant = [] then ''common'' else tenant)"
    using assms by (simp add: refresh_request_def token_endpoint_def)
  have u: "URL req = token_endpoint (if tenant = [] then ''common'' else tenant)"
    by (simp add: req refresh_request_def)
  show ?thesis
    unfolding u
    using refreshToken_sent [of refreshTok env tenant n]
      refreshToken_2xx_without_access_token [of refreshTok env tenant n]
      refreshToken_rejected [of refreshTok env tenant n]
    by (auto simp: refreshToken_empty req)
qed

theorem refreshToken_request_witness:
  "''rt'' \<noteq> [] \<and>
   refreshToken demo_env [] [] (script [Response 200 ''no-access-token'' True]) =
     (Inl RefreshTokenRequired, script [Response 200 ''no-access-token'' True]) \<and>
   sent (snd (refreshToken demo_env ''rt'' [] (script [Response 200 ''no-access-token'' True]))) =
     [refresh_request ''rt'' ''common''] \<and>
   (\<exists>e. fst (refreshToken demo_env ''rt'' [] (script [Response 200 ''no-access-token'' True]))
          = Inl e)"
proof -
  let ?n = "script [Response 200 ''no-access-token'' True]"
  have a: "''common'' = (if ([] :: string) = [] then ''common'' else [])" by simp
  have b: "refresh_request ''rt'' ''common'' =
             \<lparr>Method = ''POST'',
              URL = ''https://login.microsoftonline.com/'' @ ''common'' @ ''/oauth2/v2.0/token'',
              Authorization = None,
              ContentType = ''application/x-www-form-urlencoded'',
              Body = Form [(''grant_type'', ''refresh_token''),
                           (''refresh_token'', ''rt''),
                           (''scope'', ''https://graph.microsoft.com/.default'')]\<rparr>"
    by (simp add: refresh_request_def token_endpoint_def)
  have c: "''rt'' \<noteq> [] \<and> NewRequest_ok demo_env ''POST'' (URL (refresh_request ''rt'' ''common''))"
    by (simp add: demo_defs refresh_request_def token_endpoint_def)
  have d: "transport demo_env (world ?n) (refresh_request ''rt'' ''common'') =
             (Response 200 ''no-access-token'' True, []) \<and>
           (200::int) \<le> 200 \<and> (200::int) < 300 \<and>
           (\<forall>tokenResp. json_Unmarshal (unmarshal_token demo_env) ''no-access-token'' = Some tokenResp
              \<longrightarrow> AccessToken tokenResp = [])"
    by (simp add: demo_defs json_Unmarshal_def)
  note T = refreshToken_request [OF a b, of demo_env ?n]
  show ?thesis
    using c T [THEN conjunct1] T [THEN conjunct2, THEN conjunct1, rule_format, OF c, THEN conjunct1]
      T [THEN conjunct2, THEN conjunct1, rule_format, OF c, THEN conjunct2, rule_format, OF d]
    by (simp add: script_def)
qed

text \<open>
  The claim as stated promises the POST for every non-empty refresh token. A tenant
  identifier that holds a line feed gives a URL that \<open>http.NewRequest\<close> refuses: the
  refresher returns "failed to create request" and nothing is sent.
\<close>

theorem refreshToken_no_request_counterexample:
  "''rt'' \<noteq> [] \<and>
   refreshToken demo_env ''rt'' [CHR 0x0A] (script [Response 200 ''rotate'' True]) =
     (Inl CreateRequestFailed, \<lparr>world = [Response 200 ''rotate'' True], sent = []\<rparr>)"
  by (simp add: executor_defs demo_defs Let_def)

section \<open>Token replacement and rotation\<close>

text \<open>
  Claim C6. After a successful refresh, on the pre-flight path and on the 401 path alike,
  the client holds the access token of the response; its refresh token is the one of the
  response when that is non-empty and the old one otherwise; and every later refresh by
  that client, in the pre-flight check or after a 401, sends the form with that refresh
  token in its \<open>refresh_token\<close> field.
\<close>

theorem refresh_replaces_tokens:
  assumes ok: "refreshToken env (c_refreshToken c) (c_tenantID c) n = (Inr tr, n')"
    and kept: "kept = (if RefreshToken tr \<noteq> [] then RefreshToken tr else c_refreshToken c)"
    and nxt: "next_refresh =
                \<lparr>Method = ''POST'',
                 URL = ''https://login.microsoftonline.com/'' @
                       (if c_tenantID c = [] then ''common'' else c_tenantID c) @
                       ''/oauth2/v2.0/token'',
                 Authorization = None,
                 ContentType = ''application/x-www-form-urlencoded'',
                 Body = Form [(''grant_type'', ''refresh_token''),
                              (''refresh_token'', kept),
                              (''scope'', ''https://graph.microsoft.com/.default'')]\<rparr>"
    and after: "c' = fst (snd (refreshTokenOn401 env c endpoint verb b target n))"
  shows "(needs_refresh env now c \<longrightarrow> checkAndRefreshToken env now c n = (None, c', n')) \<and>
         accessToken (client c') = AccessToken tr \<and>
         c_refreshToken c' = kept \<and>
         c_tenantID c' = c_tenantID c \<and>
         baseURL (client c') = baseURL (client c) \<and>
         (\<forall>now2 m. needs_refresh env now2 c' \<longrightarrow>
            sent (snd (snd (checkAndRefreshToken env now2 c' m))) = sent m @ [next_refresh]) \<and>
         (\<forall>endpoint2 verb2 b2 target2 m.
            \<exists>rest. sent (snd (snd (refreshTokenOn401 env c' endpoint2 verb2 b2 target2 m))) =
                     sent m @ next_refresh # rest)"
proof -
  have c': "c' = store_tokens c tr"
    unfolding after by (rule on401_client [OF ok])
  have st: "accessToken (client c') = AccessToken tr" "c_refreshToken c' = kept"
    "c_tenantID c' = c_tenantID c" "baseURL (client c') = baseURL (client c)"
    by (simp_all add: c' store_tokens_def kept)
  have ne: "c_refreshToken c' \<noteq> []"
    using refreshToken_Inr(1) [OF ok] kept st(2) by simp
  have url: "NewRequest_ok env ''POST''
               (token_endpoint (if c_tenantID c' = [] then ''common'' else c_tenantID c'))"
    unfolding st(3) by (rule refreshToken_Inr(2) [OF ok])
  have req: "refresh_request (c_refreshToken c')
               (if c_tenantID c' = [] then ''common'' else c_tenantID c') = next_refresh"
    by (simp add: refresh_request_def token_endpoint_def nxt st)
  have A: "checkAndRefreshToken env now c n = (None, c', n')" if "needs_refresh env now c"
    unfolding c' by (rule check_refresh_succeeded [OF that ok])
  have B: "sent (snd (snd (checkAndRefreshToken env now2 c' m))) = sent m @ [next_refresh]"
    if "needs_refresh env now2 c'" for now2 m
    using check_sends_refresh [OF that ne url, of m] by (simp add: req)
  have C: "\<exists>rest. sent (snd (snd (refreshTokenOn401 env c' endpoint2 verb2 b2 target2 m))) =
                   sent m @ next_refresh # rest" for endpoint2 verb2 b2 target2 m
    using on401_sends_refresh_first [OF ne url, of endpoint2 verb2 b2 target2 m]
    by (simp add: req)
  show ?thesis
    using A B C st by blast
qed

theorem refresh_replaces_tokens_witness:
  "needs_refresh demo_env demo_now (NewClientWithRefresh ''soon'' ''rt'' []) \<and>
   checkAndRefreshToken demo_env demo_now (NewClientWithRefresh ''soon'' ''rt'' [])
     (script [Response 200 ''renew'' True]) =
     (None, NewClientWithRefresh ''renewed'' ''rt2'' [],
      \<lparr>world = [], sent = [refresh_request ''rt'' ''common'']\<rparr>) \<and>
   (\<exists>rest. sent (snd (snd (refreshTokenOn401 demo_env (NewClientWithRefresh ''renewed'' ''rt2'' [])
                              ''/me'' ''GET'' NoBody True (script [DoFailed])))) =
      \<lparr>Method = ''POST'',
       URL = ''https://login.microsoftonline.com/common/oauth2/v2.0/token'',
       Authorization = None, ContentType = ''application/x-www-form-urlencoded'',
       Body = Form [(''grant_type'', ''refresh_token''), (''refresh_token'', ''rt2''),
                    (''scope'', ''https://graph.microsoft.com/.default'')]\<rparr> # rest)"
proof -
  let ?c = "NewClientWithRefresh ''soon'' ''rt'' []"
  let ?new = "NewClientWithRefresh ''renewed'' ''rt2'' []"
  let ?tr = "\<lparr>AccessToken = ''renewed'', TokenType = ''Bearer'', ExpiresIn = 3600,
              RefreshToken = ''rt2'', Scope = []\<rparr>"
  let ?n = "script [Response 200 ''renew'' True]"
  let ?after = "\<lparr>world = [], sent = [refresh_request ''rt'' ''common'']\<rparr> :: response list net"
  let ?nxt = "\<lparr>Method = ''POST'',
       URL = ''https://login.microsoftonline.com/common/oauth2/v2.0/token'',
       Authorization = None, ContentType = ''application/x-www-form-urlencoded'',
       Body = Form [(''grant_type'', ''refresh_token''), (''refresh_token'', ''rt2''),
                    (''scope'', ''https://graph.microsoft.com/.default'')]\<rparr>"
  have a: "needs_refresh demo_env demo_now ?c"
    using demo_soon by (simp add: needs_refresh_def demo_env_def NewClientWithRefresh_def)
  have r: "refreshToken demo_env (c_refreshToken ?c) (c_tenantID ?c) ?n = (Inr ?tr, ?after)"
    by (simp add: executor_defs demo_defs Let_def)
  have k: "''rt2'' = (if RefreshToken ?tr \<noteq> [] then RefreshToken ?tr else c_refreshToken ?c)"
    by simp
  have x: "?nxt = \<lparr>Method = ''POST'',
                 URL = ''https://login.microsoftonline.com/'' @
                       (if c_tenantID ?c = [] then ''common'' else c_tenantID ?c) @
                       ''/oauth2/v2.0/token'',
                 Authorization = None,
                 ContentType = ''application/x-www-form-urlencoded'',
                 Body = Form [(''grant_type'', ''refresh_token''),
                              (''refresh_token'', ''rt2''),
                              (''scope'', ''https://graph.microsoft.com/.default'')]\<rparr>"
    by (simp add: NewClientWithRefresh_def)
  have f: "?new = fst (snd (refreshTokenOn401 demo_env ?c ''/me'' ''GET'' NoBody True ?n))"
    by (simp add: client_defs executor_defs demo_defs Let_def)
  note T = refresh_replaces_tokens [OF r k x f, of demo_now]
  have A: "checkAndRefreshToken demo_env demo_now ?c ?n = (None, ?new, ?after)"
    using T [THEN conjunct1] a by simp
  have B: "\<exists>rest. sent (snd (snd (refreshTokenOn401 demo_env ?new ''/me'' ''GET'' NoBody True
                                      (script [DoFailed])))) = sent (script [DoFailed]) @ ?nxt # rest"
    using T by blast
  show ?thesis
    using a A B by (simp add: script_def)
qed

section \<open>The pre-flight check without a refresh token\<close>

text \<open>
  Claim C5. A client whose access token parses as expired and whose refresh token is
  empty fails every operation with "token check failed: token is expired and no refresh
  token available", the client and the network untouched: no request is sent.
\<close>

theorem expired_without_refresh_token:
  assumes "ParseToken (ParseUnverified env) now (accessToken (client c)) = Inr info"
    and "IsExpired info" and "c_refreshToken c = []"
  shows "ClientWithRefresh_call env now c opn endpoint target n =
           (Inl (TokenCheckFailed ExpiredNoRefresh), c, n)"
  using call_check_failed [OF check_expired_no_refresh [OF assms]] .

theorem expired_without_refresh_token_witness:
  "IsExpired \<lparr>ExpiresAt = 900000000000, IsExpired = True,
              TimeUntilExp = - 100000000000, ExpiresSoon = False\<rparr> \<and>
   ClientWithRefresh_call demo_env demo_now (NewClientWithRefresh ''expired'' [] []) (OpPost (Some ''x''))
     ''/me'' True (script [Response 200 ''profile'' True]) =
     (Inl (TokenCheckFailed ExpiredNoRefresh), NewClientWithRefresh ''expired'' [] [],
      script [Response 200 ''profile'' True])"
proof -
  let ?c = "NewClientWithRefresh ''expired'' [] []"
  let ?i = "\<lparr>ExpiresAt = 900000000000, IsExpired = True,
              TimeUntilExp = - 100000000000, ExpiresSoon = False\<rparr>"
  have a: "ParseToken (ParseUnverified demo_env) demo_now (accessToken (client ?c)) = Inr ?i"
    using demo_expired by (simp add: demo_env_def NewClientWithRefresh_def)
  have b: "IsExpired ?i" by simp
  have c: "c_refreshToken ?c = []" by (simp add: NewClientWithRefresh_def)
  show ?thesis
    using b expired_without_refresh_token [OF a b c, of "OpPost (Some ''x'')" "''/me''" True
        "script [Response 200 ''profile'' True]"]
    by simp
qed

text \<open>
  Claim C10. A client whose refresh token is empty and whose access token parses as not
  expired (expiring soon or not), its \<open>exp\<close> claim inside the range where it is read
  exactly, passes the pre-flight check without error, with no request sent and its fields
  unchanged; the operation then sends its request with the header
  \<open>Authorization: Bearer\<close> followed by the existing access token.
\<close>

theorem valid_token_without_refresh_token:
  assumes "exp_in_range (ParseUnverified env) (accessToken (client c))"
    and "ParseToken (ParseUnverified env) now (accessToken (client c)) = Inr info"
    and "\<not> IsExpired info" and "c_refreshToken c = []"
  shows "checkAndRefreshToken env now c n = (None, c, n) \<and>
         (\<forall>b. op_body env opn = Some b \<and>
               NewRequest_ok env (op_method opn) (baseURL (client c) @ endpoint) \<longrightarrow>
               (\<exists>rest. sent (snd (snd (ClientWithRefresh_call env now c opn endpoint target n))) =
                  sent n @
                  \<lparr>Method = op_method opn, URL = baseURL (client c) @ endpoint,
                   Authorization = Some (''Bearer '' @ accessToken (client c)),
                   ContentType = ''application/json'', Body = b\<rparr> # rest))"
  using check_valid_no_refresh [OF assms(2-4)]
    call_first_request [OF check_valid_no_refresh [OF assms(2-4)]]
  unfolding bearer_request_def by blast

theorem valid_token_without_refresh_token_witness:
  "exp_in_range (ParseUnverified demo_env) ''soon'' \<and>
   \<not> IsExpired \<lparr>ExpiresAt = 1300000000000, IsExpired = False,
          TimeUntilExp = 300000000000, ExpiresSoon = True\<rparr> \<and>
   checkAndRefreshToken demo_env demo_now (NewClientWithRefresh ''soon'' [] []) (script [DoFailed]) =
     (None, NewClientWithRefresh ''soon'' [] [], script [DoFailed]) \<and>
   (\<exists>rest. sent (snd (snd (ClientWithRefresh_call demo_env demo_now
                             (NewClientWithRefresh ''soon'' [] []) OpGet ''/me'' True
                             (script [DoFailed])))) =
      \<lparr>Method = ''GET'', URL = ''https://graph.microsoft.com/v1.0/me'',
       Authorization = Some ''Bearer soon'', ContentType = ''application/json'',
       Body = NoBody\<rparr> # rest)"
proof -
  let ?c = "NewClientWithRefresh ''soon'' [] []"
  let ?i = "\<lparr>ExpiresAt = 1300000000000, IsExpired = False,
          TimeUntilExp = 300000000000, ExpiresSoon = True\<rparr>"
  have g: "exp_in_range (ParseUnverified demo_env) (accessToken (client ?c))"
    using demo_in_range(2) by (simp add: NewClientWithRefresh_def)
  have a: "ParseToken (ParseUnverified demo_env) demo_now (accessToken (client ?c)) = Inr ?i"
    using demo_soon by (simp add: demo_env_def NewClientWithRefresh_def)
  have b: "\<not> IsExpired ?i" by simp
  have c: "c_refreshToken ?c = []" by (simp add: NewClientWithRefresh_def)
  have d: "op_body demo_env (OpGet :: string operation) = Some NoBody \<and>
           NewRequest_ok demo_env (op_method (OpGet :: string operation))
             (baseURL (client ?c) @ ''/me'')"
    by (simp add: demo_defs op_method_def op_body_def)
  note T = valid_token_without_refresh_token [OF g a b c, of "script [DoFailed]" OpGet "''/me''" True]
  have A: "checkAndRefreshToken demo_env demo_now ?c (script [DoFailed]) =
             (None, ?c, script [DoFailed])"
    by (rule T [THEN conjunct1])
  note B = T [THEN conjunct2, rule_format, OF d]
  show ?thesis
    using demo_in_range(2) b A B
    by (simp add: op_method_def NewClientWithRefresh_def script_def)
qed

section \<open>Proactive refresh failure\<close>

text \<open>
  Claim C1, as the code has it. Whenever the pre-flight check attempts a refresh (the
  access token is expiring soon, expired or unparseable, and the refresh token is
  non-empty) and the refresh fails, every operation returns that failure, wrapped as
  "token check failed: failed to refresh token", keeps the client's fields, and sends no
  request beyond the one refresh request.
\<close>

theorem proactive_refresh_failure_returned:
  assumes "needs_refresh env now c" and "c_refreshToken c \<noteq> []"
    and "refreshToken env (c_refreshToken c) (c_tenantID c) n = (Inl e, n')"
  shows "ClientWithRefresh_call env now c opn endpoint target n =
           (Inl (TokenCheckFailed (RefreshFailed e)), c, n') \<and>
         (sent n' = sent n \<or>
          sent n' = sent n @ [refresh_request (c_refreshToken c)
                                (if c_tenantID c = [] then ''common'' else c_tenantID c)])"
  using call_check_failed [OF check_refresh_failed [OF assms]]
    refreshToken_at_most_one [of env "c_refreshToken c" "c_tenantID c" n] assms(3)
  by simp

theorem proactive_refresh_failure_returned_witness:
  "needs_refresh demo_env demo_now (NewClientWithRefresh ''soon'' ''rt'' []) \<and>
   ClientWithRefresh_call demo_env demo_now (NewClientWithRefresh ''soon'' ''rt'' []) OpDelete
     ''/me'' False (script [Response 500 ''busy'' True]) =
     (Inl (TokenCheckFailed (RefreshFailed (TokenRefreshStatus 500 ''busy''))),
      NewClientWithRefresh ''soon'' ''rt'' [],
      \<lparr>world = [], sent = [refresh_request ''rt'' ''common'']\<rparr>)"
proof -
  let ?c = "NewClientWithRefresh ''soon'' ''rt'' []"
  have a: "needs_refresh demo_env demo_now ?c"
    using demo_soon by (simp add: needs_refresh_def demo_env_def NewClientWithRefresh_def)
  have b: "c_refreshToken ?c \<noteq> []" by (simp add: NewClientWithRefresh_def)
  have r: "refreshToken demo_env (c_refreshToken ?c) (c_tenantID ?c)
             (script [Response 500 ''busy'' True]) =
           (Inl (TokenRefreshStatus 500 ''busy''),
            \<lparr>world = [], sent = [refresh_request ''rt'' ''common'']\<rparr>)"
    using demo_refresh_500 by (simp add: NewClientWithRefresh_def)
  show ?thesis
    using a proactive_refresh_failure_returned [OF a b r, of OpDelete "''/me''" False]
    by simp
qed

text \<open>
  The claim as stated has the request go ahead with the old token when the token is only
  expiring soon. In the run below the token expires in 300 seconds, the token endpoint
  answers 500, and \<open>Get\<close> returns the refresh failure; the request to the API is never
  sent, and the scripted answer to it is left unread.
\<close>

theorem proactive_refresh_failure_counterexample:
  "ParseToken (ParseUnverified demo_env) demo_now
     (accessToken (client (NewClientWithRefresh ''soon'' ''rt'' []))) =
     Inr \<lparr>ExpiresAt = 1300000000000, IsExpired = False,
          TimeUntilExp = 300000000000, ExpiresSoon = True\<rparr> \<and>
   ClientWithRefresh_Get demo_env demo_now (NewClientWithRefresh ''soon'' ''rt'' []) ''/me'' True
     (script [Response 500 ''busy'' True, Response 200 ''profile'' True]) =
     (Inl (TokenCheckFailed (RefreshFailed (TokenRefreshStatus 500 ''busy''))),
      NewClientWithRefresh ''soon'' ''rt'' [],
      \<lparr>world = [Response 200 ''profile'' True], sent = [refresh_request ''rt'' ''common'']\<rparr>)"
  by (simp add: ClientWithRefresh_Get_def checkAndRefreshToken_def ParseToken_def
        executor_defs demo_defs time_defs Let_def)

section \<open>Reactive refresh on 401\<close>

text \<open>
  Claim C3, as the code has it. Let the first attempt of an operation be answered 401,
  the \<open>exp\<close> claim of the access token inside the range where it is read exactly. For
  \<open>Get\<close>, \<open>Post\<close> and \<open>Patch\<close>, when the body of that answer cannot be read, the call
  ends with "failed to read response body", with no refresh and no retry. Otherwise: with
  no refresh token the call ends with "received 401 error and no refresh token available"
  and sends nothing more. With a refresh token, when the refresh succeeds the call sends
  exactly two more requests, the refresh request and one retry, which is the original
  request with the new access token as bearer; the client then holds the new access
  token, and a 401 on the retry is an error with no further request. When the refresh
  fails the call ends with that failure, having sent at most the refresh request and no
  retry.
\<close>

theorem reactive_refresh_and_retry:
  assumes guard: "exp_in_range (ParseUnverified env) (accessToken (client c0))"
    and pre: "checkAndRefreshToken env now c0 n0 = (None, c, n)"
    and body: "op_body env opn = Some b"
    and url: "NewRequest_ok env (op_method opn) (baseURL (client c) @ endpoint)"
    and first: "first = \<lparr>Method = op_method opn, URL = baseURL (client c) @ endpoint,
                         Authorization = Some (''Bearer '' @ accessToken (client c)),
                         ContentType = ''application/json'', Body = b\<rparr>"
    and resp: "transport env (world n) first = (Response 401 rb ok, w1)"
    and n1: "n1 = \<lparr>world = w1, sent = sent n @ [first]\<rparr>"
    and refresh: "refresh =
                    \<lparr>Method = ''POST'',
                     URL = ''https://login.microsoftonline.com/'' @
                           (if c_tenantID c = [] then ''common'' else c_tenantID c) @
                           ''/oauth2/v2.0/token'',
                     Authorization = None,
                     ContentType = ''application/x-www-form-urlencoded'',
                     Body = Form [(''grant_type'', ''refresh_token''),
                                  (''refresh_token'', c_refreshToken c),
                                  (''scope'', ''https://graph.microsoft.com/.default'')]\<rparr>"
  shows "(\<not> ok \<and> opn \<noteq> OpDelete \<longrightarrow>
            ClientWithRefresh_call env now c0 opn endpoint target n0 = (Inl ReadBodyFailed, c, n1)) \<and>
         (ok \<or> opn = OpDelete \<longrightarrow>
            (c_refreshToken c = [] \<longrightarrow>
               ClientWithRefresh_call env now c0 opn endpoint target n0 =
                 (Inl Got401NoRefresh, c, n1)) \<and>
            (\<forall>tr n2 resp2 w2.
               refreshToken env (c_refreshToken c) (c_tenantID c) n1 = (Inr tr, n2) \<and>
               transport env (world n2)
                 (first\<lparr>Authorization := Some (''Bearer '' @ AccessToken tr)\<rparr>) = (resp2, w2) \<longrightarrow>
               snd (snd (ClientWithRefresh_call env now c0 opn endpoint target n0)) =
                 \<lparr>world = w2,
                  sent = sent n1 @
                    [refresh, first\<lparr>Authorization := Some (''Bearer '' @ AccessToken tr)\<rparr>]\<rparr> \<and>
               accessToken (client (fst (snd (ClientWithRefresh_call env now c0 opn endpoint
                                                target n0)))) = AccessToken tr \<and>
               (\<forall>rb2 ok2. resp2 = Response 401 rb2 ok2 \<longrightarrow>
                  (\<exists>e. fst (ClientWithRefresh_call env now c0 opn endpoint target n0) = Inl e))) \<and>
            (\<forall>e n2.
               c_refreshToken c \<noteq> [] \<and>
               refreshToken env (c_refreshToken c) (c_tenantID c) n1 = (Inl e, n2) \<longrightarrow>
               ClientWithRefresh_call env now c0 opn endpoint target n0 =
                 (Inl (Got401RefreshFailed e), c, n2) \<and>
               (sent n2 = sent n1 \<or> sent n2 = sent n1 @ [refresh])))"
proof -
  let ?call = "ClientWithRefresh_call env now c0 opn endpoint target n0"
  let ?t = "target \<and> opn \<noteq> OpDelete"
  let ?u = "baseURL (client c) @ endpoint"
  have fst_eq: "first = bearer_request (op_method opn) ?u b (accessToken (client c))"
    by (simp add: first bearer_request_def)
  have retry_eq: "first\<lparr>Authorization := Some (''Bearer '' @ tok)\<rparr> =
                    bearer_request (op_method opn) ?u b tok" for tok
    by (simp add: first bearer_request_def)
  have refresh_eq: "refresh = refresh_request (c_refreshToken c)
                                (if c_tenantID c = [] then ''common'' else c_tenantID c)"
    by (simp add: refresh refresh_request_def token_endpoint_def)
  have U: "?call = (Inl ReadBodyFailed, c, n1)" if "\<not> ok" "opn \<noteq> OpDelete"
    using call_unreadable_401 [OF pre body url _ that(2), of 401 rb w1 target] resp that(1)
    by (simp add: fst_eq n1)
  have call: "?call = refreshTokenOn401 env c endpoint (op_method opn) b ?t n1"
    if rd: "ok \<or> opn = OpDelete"
    unfolding n1 fst_eq
    by (rule call_after_check [OF pre body url resp [unfolded fst_eq] rd])
  have A: "?call = (Inl Got401NoRefresh, c, n1)"
    if "ok \<or> opn = OpDelete" "c_refreshToken c = []"
    by (simp add: call [OF that(1)] on401_no_refresh_token [OF that(2)])
  have B: "snd (snd ?call) =
             \<lparr>world = w2,
              sent = sent n1 @
                [refresh, first\<lparr>Authorization := Some (''Bearer '' @ AccessToken tr)\<rparr>]\<rparr> \<and>
           accessToken (client (fst (snd ?call))) = AccessToken tr \<and>
           (\<forall>rb2 ok2. resp2 = Response 401 rb2 ok2 \<longrightarrow> (\<exists>e. fst ?call = Inl e))"
    if rd: "ok \<or> opn = OpDelete"
      and r: "refreshToken env (c_refreshToken c) (c_tenantID c) n1 = (Inr tr, n2)"
      and t: "transport env (world n2)
                (first\<lparr>Authorization := Some (''Bearer '' @ AccessToken tr)\<rparr>) = (resp2, w2)"
    for tr n2 resp2 w2
  proof -
    have re: "first\<lparr>Authorization := Some (''Bearer '' @ AccessToken tr)\<rparr> =
                bearer_request (op_method opn) ?u b (AccessToken tr)"
      by (rule retry_eq)
    show ?thesis
      unfolding re
      using on401_retry [OF r url t [unfolded re], where target = ?t]
        refreshToken_Inr(4) [OF r]
        on401_client [OF r, where endpoint = endpoint and verb = "op_method opn" and b = b
          and target = ?t]
      by (simp add: call [OF rd] refresh_eq store_tokens_def)
  qed
  have C: "?call = (Inl (Got401RefreshFailed e), c, n2) \<and>
           (sent n2 = sent n1 \<or> sent n2 = sent n1 @ [refresh])"
    if rd: "ok \<or> opn = OpDelete"
      and ne: "c_refreshToken c \<noteq> []"
      and r: "refreshToken env (c_refreshToken c) (c_tenantID c) n1 = (Inl e, n2)"
    for e n2
    using on401_refresh_failed [OF ne r, where endpoint = endpoint and verb = "op_method opn"
        and b = b and target = ?t]
      refreshToken_at_most_one [of env "c_refreshToken c" "c_tenantID c" n1] r
    by (simp add: call [OF rd] refresh_eq)
  show ?thesis
    using U A B C by blast
qed

theorem reactive_refresh_and_retry_witness:
  "exp_in_range (ParseUnverified demo_env) ''expired'' \<and>
   snd (snd (ClientWithRefresh_call demo_env demo_now (NewClientWithRefresh ''expired'' ''rt'' [])
               OpGet ''/me'' True
               (script [Response 200 ''keep'' True, Response 401 [] True,
                        Response 200 ''renew'' True, Response 401 [] True,
                        Response 200 ''profile'' True]))) =
     \<lparr>world = [Response 200 ''profile'' True],
      sent = [\<lparr>Method = ''POST'',
               URL = ''https://login.microsoftonline.com/common/oauth2/v2.0/token'',
               Authorization = None, ContentType = ''application/x-www-form-urlencoded'',
               Body = Form [(''grant_type'', ''refresh_token''), (''refresh_token'', ''rt''),
                            (''scope'', ''https://graph.microsoft.com/.default'')]\<rparr>,
              \<lparr>Method = ''GET'', URL = ''https://graph.microsoft.com/v1.0/me'',
               Authorization = Some ''Bearer fresh'', ContentType = ''application/json'',
               Body = NoBody\<rparr>,
              \<lparr>Method = ''POST'',
               URL = ''https://login.microsoftonline.com/common/oauth2/v2.0/token'',
               Authorization = None, ContentType = ''application/x-www-form-urlencoded'',
               Body = Form [(''grant_type'', ''refresh_token''), (''refresh_token'', ''rt''),
                            (''scope'', ''https://graph.microsoft.com/.default'')]\<rparr>,
              \<lparr>Method = ''GET'', URL = ''https://graph.microsoft.com/v1.0/me'',
               Authorization = Some ''Bearer renewed'', ContentType = ''application/json'',
               Body = NoBody\<rparr>]\<rparr> \<and>
   (\<exists>e. fst (ClientWithRefresh_call demo_env demo_now (NewClientWithRefresh ''expired'' ''rt'' [])
               OpGet ''/me'' True
               (script [Response 200 ''keep'' True, Response 401 [] True,
                        Response 200 ''renew'' True, Response 401 [] True,
                        Response 200 ''profile'' True])) = Inl e)"
proof -
  let ?old = "NewClientWithRefresh ''expired'' ''rt'' []"
  let ?c = "NewClientWithRefresh ''fresh'' ''rt'' []"
  let ?rs = "[Response 401 [] True, Response 200 ''renew'' True, Response 401 [] True,
              Response 200 ''profile'' True]"
  let ?begin = "script (Response 200 ''keep'' True # ?rs)"
  let ?rr = "\<lparr>Method = ''POST'',
              URL = ''https://login.microsoftonline.com/common/oauth2/v2.0/token'',
              Authorization = None, ContentType = ''application/x-www-form-urlencoded'',
              Body = Form [(''grant_type'', ''refresh_token''), (''refresh_token'', ''rt''),
                           (''scope'', ''https://graph.microsoft.com/.default'')]\<rparr>"
  let ?n = "\<lparr>world = ?rs, sent = [?rr]\<rparr>"
  let ?first = "\<lparr>Method = ''GET'', URL = ''https://graph.microsoft.com/v1.0/me'',
                 Authorization = Some ''Bearer fresh'', ContentType = ''application/json'',
                 Body = NoBody\<rparr>"
  let ?mid = "\<lparr>world = tl ?rs, sent = [?rr, ?first]\<rparr>"
  let ?tr = "\<lparr>AccessToken = ''renewed'', TokenType = ''Bearer'', ExpiresIn = 3600,
              RefreshToken = ''rt2'', Scope = []\<rparr>"
  let ?late = "\<lparr>world = tl (tl ?rs), sent = [?rr, ?first, ?rr]\<rparr>"
  have guard: "exp_in_range (ParseUnverified demo_env) (accessToken (client ?old))"
    using demo_in_range(1) by (simp add: NewClientWithRefresh_def)
  have pre: "checkAndRefreshToken demo_env demo_now ?old ?begin = (None, ?c, ?n)"
    by (simp add: client_defs executor_defs demo_defs time_defs Let_def)
  have body: "op_body demo_env (OpGet :: string operation) = Some NoBody"
    by (simp add: op_body_def)
  have url: "NewRequest_ok demo_env (op_method (OpGet :: string operation))
               (baseURL (client ?c) @ ''/me'')"
    by (simp add: demo_defs op_method_def)
  have first: "?first = \<lparr>Method = op_method (OpGet :: string operation),
                           URL = baseURL (client ?c) @ ''/me'',
                           Authorization = Some (''Bearer '' @ accessToken (client ?c)),
                           ContentType = ''application/json'', Body = NoBody\<rparr>"
    by (simp add: op_method_def NewClientWithRefresh_def)
  have resp: "transport demo_env (world ?n) ?first = (Response 401 [] True, tl ?rs)"
    by (simp add: demo_defs)
  have mid: "?mid = \<lparr>world = tl ?rs, sent = sent ?n @ [?first]\<rparr>"
    by simp
  have refresh: "?rr = \<lparr>Method = ''POST'',
                     URL = ''https://login.microsoftonline.com/'' @
                           (if c_tenantID ?c = [] then ''common'' else c_tenantID ?c) @
                           ''/oauth2/v2.0/token'',
                     Authorization = None,
                     ContentType = ''application/x-www-form-urlencoded'',
                     Body = Form [(''grant_type'', ''refresh_token''),
                                  (''refresh_token'', c_refreshToken ?c),
                                  (''scope'', ''https://graph.microsoft.com/.default'')]\<rparr>"
    by (simp add: NewClientWithRefresh_def)
  have rd: "True \<or> (OpGet :: string operation) = OpDelete" by simp
  have r: "refreshToken demo_env (c_refreshToken ?c) (c_tenantID ?c) ?mid = (Inr ?tr, ?late)"
    by (simp add: executor_defs demo_defs Let_def)
  have t: "transport demo_env (world ?late)
             (?first\<lparr>Authorization := Some (''Bearer '' @ AccessToken ?tr)\<rparr>)
           = (Response 401 [] True, [Response 200 ''profile'' True])"
    by (simp add: demo_defs)
  note T = reactive_refresh_and_retry [OF guard pre body url first resp mid refresh, of True,
      THEN conjunct2, THEN mp, OF rd, THEN conjunct2, THEN conjunct1, rule_format,
      OF conjI [OF r t]]
  show ?thesis
    using demo_in_range(1) T by auto
qed

text \<open>
  The claim as stated promises one retry whenever a refresh token is configured. In the
  first run below the first attempt is answered 401 and the token endpoint answers 400:
  the call ends after two requests, the second being the refresh, and no retry is sent.
  In the second run the body of the 401 answer cannot be read: the call ends after the
  first request, with no refresh and no retry.
\<close>

theorem reactive_refresh_no_retry_counterexample:
  "c_refreshToken (NewClientWithRefresh ''fresh'' ''rt'' []) = ''rt'' \<and>
   ClientWithRefresh_Get demo_env demo_now (NewClientWithRefresh ''fresh'' ''rt'' []) ''/me'' True
     (script [Response 401 [] True, Response 400 ''error-json'' True,
              Response 200 ''profile'' True]) =
     (Inl (Got401RefreshFailed (TokenRefreshApi ''invalid_grant'' ''revoked'')),
      NewClientWithRefresh ''fresh'' ''rt'' [],
      \<lparr>world = [Response 200 ''profile'' True],
       sent = [bearer_request ''GET'' ''https://graph.microsoft.com/v1.0/me'' NoBody ''fresh'',
               refresh_request ''rt'' ''common'']\<rparr>) \<and>
   ClientWithRefresh_Get demo_env demo_now (NewClientWithRefresh ''fresh'' ''rt'' []) ''/me'' True
     (script [Response 401 [] False, Response 200 ''renew'' True,
              Response 200 ''profile'' True]) =
     (Inl ReadBodyFailed,
      NewClientWithRefresh ''fresh'' ''rt'' [],
      \<lparr>world = [Response 200 ''renew'' True, Response 200 ''profile'' True],
       sent = [bearer_request ''GET'' ''https://graph.microsoft.com/v1.0/me'' NoBody ''fresh'']\<rparr>)"
  by (simp add: client_defs executor_defs demo_defs time_defs Let_def)

section \<open>Decoding the response body\<close>

text \<open>
  Claim C2. The claim has every operation skip the decoding of a 2xx answer when the
  body is empty or the target is nil. \<open>Get\<close> decodes unguarded: in the runs below,
  answered 204 with an empty body, or 200 with a nil target, it returns "failed to
  unmarshal response", where \<open>Post\<close> on the same answers returns success.
\<close>

theorem Client_Get_empty_body:
  "Client_Get demo_env (NewClient ''fresh'') ''/me'' True (script [Response 204 [] True]) =
     (Inl UnmarshalFailed,
      \<lparr>world = [], sent = [bearer_request ''GET'' ''https://graph.microsoft.com/v1.0/me'' NoBody ''fresh'']\<rparr>) \<and>
   Client_Get demo_env (NewClient ''fresh'') ''/me'' False (script [Response 200 ''profile'' True]) =
     (Inl UnmarshalFailed,
      \<lparr>world = [], sent = [bearer_request ''GET'' ''https://graph.microsoft.com/v1.0/me'' NoBody ''fresh'']\<rparr>) \<and>
   Client_Post demo_env (NewClient ''fresh'') ''/me'' None True (script [Response 204 [] True]) =
     (Inr None,
      \<lparr>world = [], sent = [bearer_request ''POST'' ''https://graph.microsoft.com/v1.0/me'' (Bytes []) ''fresh'']\<rparr>) \<and>
   Client_Post demo_env (NewClient ''fresh'') ''/me'' None False (script [Response 200 ''profile'' True]) =
     (Inr None,
      \<lparr>world = [], sent = [bearer_request ''POST'' ''https://graph.microsoft.com/v1.0/me'' (Bytes []) ''fresh'']\<rparr>)"
  by (simp add: client_defs executor_defs demo_defs Let_def)

end
